theory Spec2Isabelle
  imports Main
begin

section \<open>The test server of mcp-ts-tests: shared state and notification filters\<close>

text \<open>
  The server of \<^verbatim>\<open>src/server/index.ts\<close> keeps, in the closure of \<^verbatim>\<open>startServer\<close>,
  a set of subscribed resource uris, the current log level and the table of connected
  transports. The two overridden senders call the SDK's original sender only when their
  guard passes; the original sender posts one notification, which the model records in
  the field \<open>sent\<close>.
\<close>

record logging_message_params =
  level :: string
  logger :: "string option"
  data :: string

datatype progress_token = TokenNumber int | TokenString string

record progress_params =
  progressToken :: progress_token
  progress :: nat
  total :: nat
  message :: string

datatype notification =
    ResourceUpdated string
  | LoggingMessage logging_message_params
  | Progress progress_params

record server_state =
  subscribedResources :: "string set"
  currentLogLevel :: string
  transports :: "string set"
  sent :: "notification list"

text \<open>The result \<^verbatim>\<open>{}\<close> of the request handlers below.\<close>

datatype handler_result = EmptyResult

text \<open>
  What a handler can throw. \<open>McpError c m d\<close> stands for \<^verbatim>\<open>new McpError(c, m, d)\<close>,
  with the code, the message and the data object handed to the constructor;
  \<open>Error m\<close> for \<^verbatim>\<open>new Error(m)\<close>; \<open>NonError c\<close> for a thrown value that is not an
  \<^verbatim>\<open>Error\<close>, with the numeric code it may carry.
\<close>

datatype thrown =
    McpError int string "(string \<times> string) list"
  | Error string
  | NonError "int option"

text \<open>\<^verbatim>\<open>const levels: LoggingLevel[] = ['debug', ..., 'emergency']\<close>\<close>

definition levels :: "string list" where
  "levels = [''debug'', ''info'', ''notice'', ''warning'', ''error'', ''critical'',
             ''alert'', ''emergency'']"

text \<open>JavaScript's \<^verbatim>\<open>Array.prototype.indexOf\<close>: the first index, or -1.\<close>

fun indexOf :: "'a list \<Rightarrow> 'a \<Rightarrow> int" where
  "indexOf [] x = -1"
| "indexOf (y # ys) x =
     (if y = x then 0 else (let r = indexOf ys x in if r < 0 then -1 else r + 1))"

text \<open>JavaScript's \<^verbatim>\<open>Array.prototype.includes\<close>.\<close>

definition array_includes :: "'a list \<Rightarrow> 'a \<Rightarrow> bool" where
  "array_includes xs x = (x \<in> set xs)"

text \<open>The state right after \<^verbatim>\<open>startServer\<close>: nothing subscribed, level \<^verbatim>\<open>'info'\<close>.\<close>

definition initial_state :: server_state where
  "initial_state =
     \<lparr>subscribedResources = {}, currentLogLevel = ''info'', transports = {}, sent = []\<rparr>"

text \<open>The handlers of \<^verbatim>\<open>resources/subscribe\<close> and \<^verbatim>\<open>resources/unsubscribe\<close>.\<close>

definition subscribe_handler ::
  "string \<Rightarrow> server_state \<Rightarrow> (thrown + handler_result) \<times> server_state" where
  "subscribe_handler uri s =
     (Inr EmptyResult, s\<lparr>subscribedResources := insert uri (subscribedResources s)\<rparr>)"

definition unsubscribe_handler ::
  "string \<Rightarrow> server_state \<Rightarrow> (thrown + handler_result) \<times> server_state" where
  "unsubscribe_handler uri s =
     (Inr EmptyResult, s\<lparr>subscribedResources := subscribedResources s - {uri}\<rparr>)"

text \<open>
  The SDK's own \<^verbatim>\<open>sendResourceUpdated\<close> and \<^verbatim>\<open>sendLoggingMessage\<close>, bound before the
  override: each posts one notification with the parameters it is given.
\<close>

definition originalSendResourceUpdated :: "string \<Rightarrow> server_state \<Rightarrow> server_state" where
  "originalSendResourceUpdated uri s = s\<lparr>sent := sent s @ [ResourceUpdated uri]\<rparr>"

definition originalSendLoggingMessage ::
  "logging_message_params \<Rightarrow> server_state \<Rightarrow> server_state" where
  "originalSendLoggingMessage p s = s\<lparr>sent := sent s @ [LoggingMessage p]\<rparr>"

text \<open>The override of \<^verbatim>\<open>sendResourceUpdated\<close>: guarded by membership.\<close>

definition sendResourceUpdated :: "string \<Rightarrow> server_state \<Rightarrow> server_state" where
  "sendResourceUpdated uri s =
     (if uri \<in> subscribedResources s then originalSendResourceUpdated uri s else s)"

text \<open>
  The handler of \<^verbatim>\<open>logging/setLevel\<close>: the level is stored when the list includes it,
  and the handler returns \<^verbatim>\<open>{}\<close> on both branches.
\<close>

definition setLevel_handler ::
  "string \<Rightarrow> server_state \<Rightarrow> (thrown + handler_result) \<times> server_state" where
  "setLevel_handler lvl s =
     (Inr EmptyResult, if array_includes levels lvl then s\<lparr>currentLogLevel := lvl\<rparr> else s)"

text \<open>
  Modelled from the spec: the validation of the level of a \<^verbatim>\<open>logging/setLevel\<close> request
  (section 4.4: \<open>setLevel(level)\<close> validates that the level is one of the eight defined
  severities, else fails with an invalid-parameter error and leaves the threshold
  unchanged; section 3 lists the severities). The handler is registered under
  \<^verbatim>\<open>SetLevelRequestSchema\<close> and the SDK parses every request against that schema before
  it calls the handler; the schema and the parsing are not among the sources. The error
  carries the code -32602, the invalid-params code that the read wrapper below tests for.
\<close>

definition defined_severities :: "string list" where
  "defined_severities = [''debug'', ''info'', ''notice'', ''warning'', ''error'', ''critical'',
                         ''alert'', ''emergency'']"

definition validate_level :: "string \<Rightarrow> thrown + string" where
  "validate_level lvl =
     (if lvl \<in> set defined_severities then Inr lvl
      else Inl (McpError (-32602) ''Invalid params'' []))"

text \<open>
  A \<^verbatim>\<open>logging/setLevel\<close> request as the server answers it: the validation, then the
  handler on the level that passed.
\<close>

definition setLevel_request ::
  "string \<Rightarrow> server_state \<Rightarrow> (thrown + handler_result) \<times> server_state" where
  "setLevel_request lvl s =
     (case validate_level lvl of
        Inl e \<Rightarrow> (Inl e, s)
      | Inr l \<Rightarrow> setLevel_handler l s)"

text \<open>The numeric \<^verbatim>\<open>code\<close> property of a failed call, if it failed and has one.\<close>

definition failure_code :: "(thrown + 'r) \<Rightarrow> int option" where
  "failure_code r =
     (case r of
        Inl (McpError c m d) \<Rightarrow> Some c
      | Inl (Error m) \<Rightarrow> None
      | Inl (NonError c) \<Rightarrow> c
      | Inr v \<Rightarrow> None)"

text \<open>The override of \<^verbatim>\<open>sendLoggingMessage\<close>: guarded by the comparison of list indices.\<close>

definition sendLoggingMessage :: "logging_message_params \<Rightarrow> server_state \<Rightarrow> server_state" where
  "sendLoggingMessage p s =
     (if indexOf levels (level p) \<ge> indexOf levels (currentLogLevel s)
      then originalSendLoggingMessage p s else s)"

text \<open>
  The rank of a severity as the specification words it: the position in the fixed order
  debug < info < notice < warning < error < critical < alert < emergency.
\<close>

definition severity_rank :: "string \<Rightarrow> nat" where
  "severity_rank l =
     (if l = ''debug'' then 0 else if l = ''info'' then 1 else if l = ''notice'' then 2
      else if l = ''warning'' then 3 else if l = ''error'' then 4
      else if l = ''critical'' then 5 else if l = ''alert'' then 6 else 7)"

text \<open>
  Requests reach the handlers through \<^verbatim>\<open>POST /messages?sessionId=...\<close>: an unknown
  session id is answered 404 and nothing runs; otherwise the transport hands the message
  to the one \<^verbatim>\<open>mcpServer\<close>, whose handlers never look at the session.
\<close>

datatype request =
    SubscribeRequest string
  | UnsubscribeRequest string
  | SetLevelRequest string

fun handle_request ::
  "request \<Rightarrow> server_state \<Rightarrow> (thrown + handler_result) \<times> server_state" where
  "handle_request (SubscribeRequest uri) s = subscribe_handler uri s"
| "handle_request (UnsubscribeRequest uri) s = unsubscribe_handler uri s"
| "handle_request (SetLevelRequest lvl) s = setLevel_handler lvl s"

datatype http_reply = Handled "thrown + handler_result" | SessionNotFound

definition post_message ::
  "string \<Rightarrow> request \<Rightarrow> server_state \<Rightarrow> http_reply \<times> server_state" where
  "post_message sessionId req s =
     (if sessionId \<notin> transports s then (SessionNotFound, s)
      else (Handled (fst (handle_request req s)), snd (handle_request req s)))"

text \<open>\<^verbatim>\<open>GET /sse\<close> registers the new transport; its \<^verbatim>\<open>onclose\<close> deletes the entry.\<close>

definition connect_sse :: "string \<Rightarrow> server_state \<Rightarrow> server_state" where
  "connect_sse sessionId s = s\<lparr>transports := insert sessionId (transports s)\<rparr>"

definition close_transport :: "string \<Rightarrow> server_state \<Rightarrow> server_state" where
  "close_transport sessionId s = s\<lparr>transports := transports s - {sessionId}\<rparr>"

text \<open>Everything that can happen to the server state, in the order it happens.\<close>

datatype event =
    Connect string
  | Close string
  | Post string request
  | SendResourceUpdated string
  | SendLoggingMessage logging_message_params

fun step :: "event \<Rightarrow> server_state \<Rightarrow> server_state" where
  "step (Connect sid) s = connect_sse sid s"
| "step (Close sid) s = close_transport sid s"
| "step (Post sid req) s = snd (post_message sid req s)"
| "step (SendResourceUpdated uri) s = sendResourceUpdated uri s"
| "step (SendLoggingMessage p) s = sendLoggingMessage p s"

fun run_events :: "event list \<Rightarrow> server_state \<Rightarrow> server_state" where
  "run_events [] s = s"
| "run_events (e # es) s = run_events es (step e s)"

text \<open>
  Whether a uri counts as subscribed after a history of requests, as the specification
  words it: added by a subscribe and not since removed by an unsubscribe.
\<close>

fun subscribed_after :: "bool \<Rightarrow> request list \<Rightarrow> string \<Rightarrow> bool" where
  "subscribed_after b [] u = b"
| "subscribed_after b (SubscribeRequest v # rs) u = subscribed_after (u = v \<or> b) rs u"
| "subscribed_after b (UnsubscribeRequest v # rs) u = subscribed_after (b \<and> u \<noteq> v) rs u"
| "subscribed_after b (SetLevelRequest l # rs) u = subscribed_after b rs u"

fun run_requests :: "request list \<Rightarrow> server_state \<Rightarrow> server_state" where
  "run_requests [] s = s"
| "run_requests (r # rs) s = run_requests rs (snd (handle_request r s))"

section \<open>The long-running handlers\<close>

text \<open>
  What a handler receives besides its arguments: the request's \<^verbatim>\<open>_meta\<close> and the abort
  signal. The handler reads \<^verbatim>\<open>signal.aborted\<close> once per loop iteration, before the
  timer; \<open>signal_aborted extra i\<close> is the value it reads at iteration \<open>i\<close>. The peer may
  abort at any moment, so the reads are an input of the model. The timer itself
  (\<^verbatim>\<open>setTimeout\<close>) only passes time and has no counterpart here.
\<close>

record request_meta =
  meta_progressToken :: "progress_token option"

record handler_extra =
  meta :: "request_meta option"
  signal_aborted :: "nat \<Rightarrow> bool"

text \<open>
  Two signals: one that is never aborted, and one that reads aborted from the check of
  iteration \<open>k\<close> on (an \<^verbatim>\<open>AbortSignal\<close> stays aborted once it is).
\<close>

definition never_aborted :: "nat \<Rightarrow> bool" where
  "never_aborted i = False"

definition aborted_from :: "nat \<Rightarrow> nat \<Rightarrow> bool" where
  "aborted_from k i = (k \<le> i)"

text \<open>\<^verbatim>\<open>_meta?.progressToken ?? 0\<close>: only a missing token falls back to 0.\<close>

definition progressToken_or_0 :: "handler_extra \<Rightarrow> progress_token" where
  "progressToken_or_0 extra =
     (case meta extra of
        None \<Rightarrow> TokenNumber 0
      | Some m \<Rightarrow> (case meta_progressToken m of None \<Rightarrow> TokenNumber 0 | Some t \<Rightarrow> t))"

text \<open>The decimal digits of a number, for the template literal \<^verbatim>\<open>`Step ${i}`\<close>.\<close>

definition digit_char :: "nat \<Rightarrow> char" where
  "digit_char d = ''0123456789'' ! d"

fun show_nat :: "nat \<Rightarrow> string" where
  "show_nat n = (if n < 10 then [digit_char n] else show_nat (n div 10) @ [digit_char (n mod 10)])"

declare show_nat.simps [simp del]

text \<open>The token the request supplied, if any.\<close>

definition supplied_token :: "handler_extra \<Rightarrow> progress_token option" where
  "supplied_token extra = (case meta extra of None \<Rightarrow> None | Some m \<Rightarrow> meta_progressToken m)"

text \<open>A notification is a progress notification with the given token.\<close>

definition carries_token :: "progress_token \<Rightarrow> notification \<Rightarrow> bool" where
  "carries_token t n = (case n of Progress p \<Rightarrow> progressToken p = t | _ \<Rightarrow> False)"

text \<open>
  The first iteration, among \<open>1 .. steps\<close>, whose check reads the signal as aborted.
\<close>

definition first_abort :: "handler_extra \<Rightarrow> nat \<Rightarrow> nat option" where
  "first_abort extra steps = find (signal_aborted extra) [1 ..< Suc steps]"

definition progress_notification :: "handler_extra \<Rightarrow> nat \<Rightarrow> nat \<Rightarrow> notification" where
  "progress_notification extra i steps =
     Progress \<lparr>progressToken = progressToken_or_0 extra, progress = i, total = steps,
               message = ''Step '' @ show_nat i\<rparr>"

text \<open>
  The loop shared by the slow handlers,
  \<^verbatim>\<open>for (let i = 1; i <= steps; i++) { if (signal.aborted) throw ...; await ...; await sendNotification(...) }\<close>,
  from iteration \<open>i\<close> on. It returns the exception it threw, if any, and the
  notifications sent so far.
\<close>

function progress_loop ::
  "nat \<Rightarrow> nat \<Rightarrow> handler_extra \<Rightarrow> notification list \<Rightarrow> thrown option \<times> notification list"
where
  "progress_loop steps i extra out =
     (if i \<le> steps then
        (if signal_aborted extra i then (Some (Error ''Cancelled''), out)
         else progress_loop steps (i + 1) extra (out @ [progress_notification extra i steps]))
      else (None, out))"
  by pat_completeness auto
termination
  by (relation "measure (\<lambda>(steps, i, extra, out). Suc steps - i)") auto

declare progress_loop.simps [simp del]

record text_content =
  content_text :: string

record call_tool_result =
  content :: "text_content list"

record prompt_message =
  role :: string
  message_content :: text_content

record get_prompt_result =
  description :: string
  messages :: "prompt_message list"

record resource_contents =
  contents_uri :: string
  mimeType :: string
  contents_text :: string

record read_resource_result =
  contents :: "resource_contents list"

text \<open>The tool \<^verbatim>\<open>slow_echo\<close>; \<open>delay\<close> only sets the timer.\<close>

definition slow_echo ::
  "string \<Rightarrow> int \<Rightarrow> handler_extra \<Rightarrow> (thrown + call_tool_result) \<times> notification list" where
  "slow_echo msg delay extra =
     (case progress_loop 5 1 extra [] of
        (Some e, out) \<Rightarrow> (Inl e, out)
      | (None, out) \<Rightarrow> (Inr \<lparr>content = [\<lparr>content_text = msg\<rparr>]\<rparr>, out))"

text \<open>The prompt \<^verbatim>\<open>slow_prompt\<close>.\<close>

definition slow_prompt ::
  "string \<Rightarrow> handler_extra \<Rightarrow> (thrown + get_prompt_result) \<times> notification list" where
  "slow_prompt msg extra =
     (case progress_loop 5 1 extra [] of
        (Some e, out) \<Rightarrow> (Inl e, out)
      | (None, out) \<Rightarrow>
          (Inr \<lparr>description = ''Slow prompt'',
                messages = [\<lparr>role = ''user'', message_content = \<lparr>content_text = msg\<rparr>\<rparr>]\<rparr>, out))"

text \<open>The resource \<^verbatim>\<open>slow-resource\<close> at \<^verbatim>\<open>file:///slow/data.txt\<close>.\<close>

definition slow_resource ::
  "handler_extra \<Rightarrow> (thrown + read_resource_result) \<times> notification list" where
  "slow_resource extra =
     (case progress_loop 3 1 extra [] of
        (Some e, out) \<Rightarrow> (Inl e, out)
      | (None, out) \<Rightarrow>
          (Inr \<lparr>contents = [\<lparr>contents_uri = ''file:///slow/data.txt'',
                              mimeType = ''text/plain'',
                              contents_text = ''slow resource''\<rparr>]\<rparr>, out))"

section \<open>Reading resources\<close>

text \<open>
  A \<^verbatim>\<open>URL\<close> object, known here only by the string its \<^verbatim>\<open>toString()\<close> gives.
\<close>

datatype url = URL string

fun toString :: "url \<Rightarrow> string" where
  "toString (URL href) = href"

definition main_rs_text :: string where
  "main_rs_text = ''fn main() {'' @ [CHR 0x0A] @ ''    println!('' @ [CHR 0x22] @ ''Hello world!''
                  @ [CHR 0x22] @ '');'' @ [CHR 0x0A] @ ''}''"

text \<open>
  The handler of the template \<^verbatim>\<open>http://example.com/{+path}\<close>; \<open>path\<close> is \<^verbatim>\<open>vars.path\<close>.
\<close>

definition file_template_handler ::
  "url \<Rightarrow> string \<Rightarrow> handler_extra \<Rightarrow> (thrown + read_resource_result) \<times> notification list"
where
  "file_template_handler uri path extra =
     (if path = ''project/src/main.rs'' then
        (Inr \<lparr>contents = [\<lparr>contents_uri = ''http://example.com/project/src/main.rs'',
                            mimeType = ''text/x-rust'', contents_text = main_rs_text\<rparr>]\<rparr>, [])
      else if path = ''slow/data.txt'' then
        (case progress_loop 3 1 extra [] of
           (Some e, out) \<Rightarrow> (Inl e, out)
         | (None, out) \<Rightarrow>
             (Inr \<lparr>contents = [\<lparr>contents_uri = ''http://example.com/slow/data.txt'',
                                 mimeType = ''text/plain'',
                                 contents_text = ''slow resource''\<rparr>]\<rparr>, out))
      else (Inl (McpError (-32002) ''Resource not found'' [(''uri'', toString uri)]), []))"

text \<open>
  The catch clause of the wrapped \<^verbatim>\<open>resources/read\<close> handler tests
  \<^verbatim>\<open>e instanceof Error && e.code === -32602\<close>. \<^verbatim>\<open>McpError\<close> extends \<^verbatim>\<open>Error\<close> and
  carries a numeric code; a plain \<^verbatim>\<open>Error\<close> has none; any other thrown value is not
  an \<^verbatim>\<open>Error\<close>, whatever code it carries.
\<close>

fun instanceof_Error :: "thrown \<Rightarrow> bool" where
  "instanceof_Error (McpError c m d) = True"
| "instanceof_Error (Error m) = True"
| "instanceof_Error (NonError c) = False"

fun code_of :: "thrown \<Rightarrow> int option" where
  "code_of (McpError c m d) = Some c"
| "code_of (Error m) = None"
| "code_of (NonError c) = c"

record read_request =
  request_uri :: string

text \<open>
  The wrapped handler. \<open>origReadHandler\<close> is the handler the SDK had installed, taken
  out of \<^verbatim>\<open>_requestHandlers\<close> before the override.
\<close>

definition read_handler ::
  "(read_request \<Rightarrow> handler_extra \<Rightarrow> (thrown + 'r) \<times> notification list) \<Rightarrow>
   read_request \<Rightarrow> handler_extra \<Rightarrow> (thrown + 'r) \<times> notification list" where
  "read_handler origReadHandler request extra =
     (case origReadHandler request extra of
        (Inr r, out) \<Rightarrow> (Inr r, out)
      | (Inl e, out) \<Rightarrow>
          (if instanceof_Error e \<and> code_of e = Some (-32602)
           then (Inl (McpError (-32002) ''Resource not found'' [(''uri'', request_uri request)]),
                 out)
           else (Inl e, out)))"

text \<open>
  The \<^verbatim>\<open>message\<close> property of a thrown value. The constructor of \<^verbatim>\<open>McpError\<close> puts
  the code in front of the message it is given: in the test \<^verbatim>\<open>Sampling Error Handling\<close>,
  \<^verbatim>\<open>new McpError(-1, 'User rejected sampling request')\<close> reaches the peer with the message
  \<^verbatim>\<open>'MCP error -1: User rejected sampling request'\<close>.
\<close>

definition show_int :: "int \<Rightarrow> string" where
  "show_int i = (if i < 0 then ''-'' @ show_nat (nat (- i)) else show_nat (nat i))"

fun message_of :: "thrown \<Rightarrow> string option" where
  "message_of (McpError c m d) = Some (''MCP error '' @ show_int c @ '': '' @ m)"
| "message_of (Error m) = Some m"
| "message_of (NonError c) = None"

text \<open>The message with which a call failed, if it failed.\<close>

definition failure_message :: "(thrown + 'r) \<times> notification list \<Rightarrow> string option" where
  "failure_message res = (case fst res of Inl e \<Rightarrow> message_of e | Inr r \<Rightarrow> None)"

text \<open>
  To run the wrapped handler on a given outcome of the original handler: a handler that
  has this outcome.
\<close>

definition handler_with_outcome ::
  "(thrown + 'r) \<times> notification list \<Rightarrow> read_request \<Rightarrow> handler_extra \<Rightarrow>
   (thrown + 'r) \<times> notification list" where
  "handler_with_outcome outcome request extra = outcome"

section \<open>Paginated listing\<close>

text \<open>
  The listing handler that the test \<^verbatim>\<open>Paginated Resource Listing\<close> installs works on
  the request object as it came off the wire, so requests and results are JSON values.
\<close>

datatype json =
    JNull
  | JBool bool
  | JNumber int
  | JString string
  | JArray "json list"
  | JObject "(string \<times> json) list"

text \<open>\<^verbatim>\<open>obj.key\<close> on a JSON value: the member, or nothing (\<^verbatim>\<open>undefined\<close>).\<close>

fun member_of :: "json \<Rightarrow> string \<Rightarrow> json option" where
  "member_of (JObject kvs) k = map_of kvs k"
| "member_of j k = None"

text \<open>
  Modelled from the spec: the request that a listing call puts on the wire (section 6: a
  request is \<open>{version, id, method, params?}\<close>; section 4.6: the optional cursor travels
  as it is, and leaving it out is not the same as passing one). It is the SDK client's
  encoding, which is not among the sources; the field names are those of the two messages
  the test \<^verbatim>\<open>Paginated Resource Listing\<close> expects in \<^verbatim>\<open>serverReceived\<close>:
  \<^verbatim>\<open>{ jsonrpc: '2.0', id, method: 'resources/list' }\<close> for \<^verbatim>\<open>listResources()\<close> and the same
  with \<^verbatim>\<open>params: { cursor: 'next' }\<close> for \<^verbatim>\<open>listResources({ cursor: 'next' })\<close>.
\<close>

definition listResources_request :: "int \<Rightarrow> string option \<Rightarrow> json" where
  "listResources_request i cursor =
     JObject ([(''jsonrpc'', JString ''2.0''), (''id'', JNumber i),
               (''method'', JString ''resources/list'')]
              @ (case cursor of
                   None \<Rightarrow> []
                 | Some c \<Rightarrow> [(''params'', JObject [(''cursor'', JString c)])]))"

text \<open>\<^verbatim>\<open>req.params && 'cursor' in req.params\<close>: the request has parameters with a cursor.\<close>

definition cursor_in_params :: "json \<Rightarrow> bool" where
  "cursor_in_params req =
     (case member_of req ''params'' of
        Some (JObject ps) \<Rightarrow> map_of ps ''cursor'' \<noteq> None
      | _ \<Rightarrow> False)"

text \<open>\<^verbatim>\<open>req.params.cursor\<close>, read when the test before it has passed.\<close>

definition params_cursor :: "json \<Rightarrow> json option" where
  "params_cursor req =
     (case member_of req ''params'' of Some ps \<Rightarrow> member_of ps ''cursor'' | None \<Rightarrow> None)"

text \<open>
  The handler the test installs:
  \<^verbatim>\<open>if (req.params && 'cursor' in req.params && req.params.cursor === 'next')\<close> it returns
  the resource \<^verbatim>\<open>file:///two\<close> alone, otherwise \<^verbatim>\<open>file:///one\<close> and \<^verbatim>\<open>nextCursor: 'next'\<close>.
\<close>

definition list_resources_handler :: "json \<Rightarrow> json" where
  "list_resources_handler req =
     (if cursor_in_params req \<and> params_cursor req = Some (JString ''next'')
      then JObject [(''resources'',
                     JArray [JObject [(''uri'', JString ''file:///two''),
                                      (''name'', JString ''two'')]])]
      else JObject [(''resources'',
                     JArray [JObject [(''uri'', JString ''file:///one''),
                                      (''name'', JString ''one'')]]),
                    (''nextCursor'', JString ''next'')])"

text \<open>The cursor a result hands back, if it is there and a string.\<close>

definition nextCursor_of :: "json \<Rightarrow> string option" where
  "nextCursor_of res =
     (case member_of res ''nextCursor'' of Some (JString c) \<Rightarrow> Some c | _ \<Rightarrow> None)"

definition resources_of :: "json \<Rightarrow> json list" where
  "resources_of res = (case member_of res ''resources'' of Some (JArray rs) \<Rightarrow> rs | _ \<Rightarrow> [])"

section \<open>The caller's correlation table\<close>

text \<open>
  Modelled from the spec: the request-id counter and the table of pending requests of a
  session (sections 3 and 4.1). They live in the SDK's client, which the tests drive
  (\<^verbatim>\<open>client._requestMessageId\<close>, \<^verbatim>\<open>client.callTool(..., { signal })\<close>) and whose code is
  not among the sources. A session owns a counter, the pending requests, the messages it
  has put on the channel and the terminal states its callers have observed, in order.
\<close>

record pending_request =
  pr_id :: nat
  pr_method :: string
  pr_progressToken :: "progress_token option"

datatype envelope =
    RequestEnvelope nat string "progress_token option"
  | ResponseEnvelope nat string
  | ErrorEnvelope nat int string
  | CancelledNotification nat "string option"
  | OtherNotification string

datatype terminal_state =
    ResolvedWithResult string
  | ResolvedWithError int string
  | CancelledLocally "string option"

record session =
  counter :: nat
  pending :: "pending_request list"
  channel :: "envelope list"
  observed :: "(nat \<times> terminal_state) list"

definition new_session :: "nat \<Rightarrow> session" where
  "new_session c = \<lparr>counter = c, pending = [], channel = [], observed = []\<rparr>"

definition is_pending :: "nat \<Rightarrow> session \<Rightarrow> bool" where
  "is_pending i s = (i \<in> set (map pr_id (pending s)))"

definition drop_pending :: "nat \<Rightarrow> session \<Rightarrow> pending_request list" where
  "drop_pending i s = filter (\<lambda>p. pr_id p \<noteq> i) (pending s)"

text \<open>\<open>submit\<close>: ids are allocated in submission order, whatever the method.\<close>

definition submit :: "string \<Rightarrow> progress_token option \<Rightarrow> session \<Rightarrow> nat \<times> session" where
  "submit meth tok s =
     (counter s,
      s\<lparr>counter := counter s + 1,
        pending := pending s @ [\<lparr>pr_id = counter s, pr_method = meth, pr_progressToken = tok\<rparr>],
        channel := channel s @ [RequestEnvelope (counter s) meth tok]\<rparr>)"

text \<open>\<open>resolve\<close> and \<open>reject\<close>: a no-op on an id with no pending request.\<close>

definition resolve :: "nat \<Rightarrow> string \<Rightarrow> session \<Rightarrow> session" where
  "resolve i res s =
     (if is_pending i s
      then s\<lparr>pending := drop_pending i s, observed := observed s @ [(i, ResolvedWithResult res)]\<rparr>
      else s)"

definition reject :: "nat \<Rightarrow> int \<Rightarrow> string \<Rightarrow> session \<Rightarrow> session" where
  "reject i code msg s =
     (if is_pending i s
      then s\<lparr>pending := drop_pending i s,
             observed := observed s @ [(i, ResolvedWithError code msg)]\<rparr>
      else s)"

text \<open>
  \<open>cancelLocally\<close>: the pending request reaches its terminal state at once and a
  cancellation notification with the request id and the reason goes on the channel.
\<close>

definition cancelLocally :: "nat \<Rightarrow> string option \<Rightarrow> session \<Rightarrow> session" where
  "cancelLocally i reason s =
     (if is_pending i s
      then s\<lparr>pending := drop_pending i s,
             observed := observed s @ [(i, CancelledLocally reason)],
             channel := channel s @ [CancelledNotification i reason]\<rparr>
      else s)"

text \<open>\<open>onMessage\<close>: a response or an error goes to the pending request with its id.\<close>

fun onMessage :: "envelope \<Rightarrow> session \<Rightarrow> session" where
  "onMessage (ResponseEnvelope i res) s = resolve i res s"
| "onMessage (ErrorEnvelope i code msg) s = reject i code msg s"
| "onMessage m s = s"

datatype session_event =
    Submit string "progress_token option"
  | Cancel nat "string option"
  | Incoming envelope

fun session_step :: "session_event \<Rightarrow> session \<Rightarrow> session" where
  "session_step (Submit meth tok) s = snd (submit meth tok s)"
| "session_step (Cancel i reason) s = cancelLocally i reason s"
| "session_step (Incoming m) s = onMessage m s"

fun session_run :: "session_event list \<Rightarrow> session \<Rightarrow> session" where
  "session_run [] s = s"
| "session_run (e # es) s = session_run es (session_step e s)"

text \<open>The ids handed out while a list of events runs, in order.\<close>

fun allocated_ids :: "session_event list \<Rightarrow> session \<Rightarrow> nat list" where
  "allocated_ids [] s = []"
| "allocated_ids (Submit meth tok # es) s =
     fst (submit meth tok s) # allocated_ids es (snd (submit meth tok s))"
| "allocated_ids (e # es) s = allocated_ids es (session_step e s)"

fun count_submits :: "session_event list \<Rightarrow> nat" where
  "count_submits [] = 0"
| "count_submits (Submit meth tok # es) = Suc (count_submits es)"
| "count_submits (e # es) = count_submits es"

text \<open>What a caller has observed for one request id.\<close>

definition observed_for :: "nat \<Rightarrow> session \<Rightarrow> terminal_state list" where
  "observed_for i s = map snd (filter (\<lambda>x. fst x = i) (observed s))"

text \<open>
  The table is consistent: every id in it or already observed is below the counter, no
  id is pending twice, and no pending id has a terminal state yet.
\<close>

definition session_wf :: "session \<Rightarrow> bool" where
  "session_wf s =
     (list_all (\<lambda>p. pr_id p < counter s) (pending s) \<and>
      list_all (\<lambda>x. fst x < counter s) (observed s) \<and>
      distinct (map pr_id (pending s)) \<and>
      list_all (\<lambda>p. pr_id p \<notin> set (map fst (observed s))) (pending s))"

text \<open>
  An id is retired once it is below the counter and no longer pending.
\<close>

definition retired :: "nat \<Rightarrow> session \<Rightarrow> bool" where
  "retired r s = (r < counter s \<and> \<not> is_pending r s)"

section \<open>Properties of the notification filters\<close>

lemma indexOf_levels_rank:
  "array_includes levels l \<Longrightarrow> indexOf levels l = int (severity_rank l)"
  by (auto simp: array_includes_def levels_def severity_rank_def)

lemma step_level_valid:
  "array_includes levels (currentLogLevel s) \<Longrightarrow>
   array_includes levels (currentLogLevel (step e s))"
proof (cases e)
  case (Post sid req)
  assume "array_includes levels (currentLogLevel s)"
  then show ?thesis unfolding Post
    by (cases req)
       (simp_all add: post_message_def subscribe_handler_def unsubscribe_handler_def
          setLevel_handler_def)
qed (simp_all add: connect_sse_def close_transport_def sendResourceUpdated_def
       originalSendResourceUpdated_def sendLoggingMessage_def originalSendLoggingMessage_def)

lemma run_events_level_valid:
  "array_includes levels (currentLogLevel s) \<Longrightarrow>
   array_includes levels (currentLogLevel (run_events es s))"
  by (induction es arbitrary: s) (simp_all add: step_level_valid)

lemma initial_level_valid: "array_includes levels (currentLogLevel initial_state)"
  by (simp add: initial_state_def array_includes_def levels_def)

lemma run_requests_subscribed:
  "(u \<in> subscribedResources (run_requests rs s)) =
   subscribed_after (u \<in> subscribedResources s) rs u"
proof (induction rs arbitrary: s)
  case Nil
  then show ?case by simp
next
  case (Cons r rs)
  show ?case
    by (cases r)
       (simp_all add: Cons.IH subscribe_handler_def unsubscribe_handler_def
          setLevel_handler_def)
qed

lemma defined_severities_levels: "set defined_severities = set levels"
  by (simp add: defined_severities_def levels_def)

text \<open>
  Claim C1: a \<^verbatim>\<open>logging/setLevel\<close> request whose level is not one of the eight
  severities fails with an invalid-parameter error and leaves the threshold, with the
  rest of the state, as it was; a request with one of the eight gets the empty result and
  the threshold becomes that level. The list \<^verbatim>\<open>levels\<close> of the server holds exactly the
  eight, so the handler's own test rejects and accepts the same levels as the validation:
  both leave the same state.
\<close>

theorem setLevel_validated:
  "(\<not> array_includes levels lvl \<longrightarrow>
      failure_code (fst (setLevel_request lvl s)) = Some (-32602) \<and>
      snd (setLevel_request lvl s) = s) \<and>
   (array_includes levels lvl \<longrightarrow>
      setLevel_request lvl s = (Inr EmptyResult, s\<lparr>currentLogLevel := lvl\<rparr>)) \<and>
   snd (setLevel_request lvl s) = snd (setLevel_handler lvl s) \<and>
   length levels = 8 \<and> distinct levels"
proof -
  have same: "(lvl \<in> set defined_severities) = array_includes levels lvl"
    by (simp add: defined_severities_levels array_includes_def)
  have eight: "length levels = 8 \<and> distinct levels"
    by (simp add: levels_def)
  show ?thesis
  proof (cases "array_includes levels lvl")
    case True
    then show ?thesis using same eight
      by (simp add: setLevel_request_def validate_level_def setLevel_handler_def)
  next
    case False
    then show ?thesis using same eight
      by (simp add: setLevel_request_def validate_level_def setLevel_handler_def
          failure_code_def)
  qed
qed

theorem setLevel_validated_witness:
  "array_includes levels ''error'' \<and>
   setLevel_request ''error'' initial_state =
     (Inr EmptyResult, initial_state\<lparr>currentLogLevel := ''error''\<rparr>) \<and>
   \<not> array_includes levels ''verbose'' \<and>
   failure_code (fst (setLevel_request ''verbose'' initial_state)) = Some (-32602) \<and>
   snd (setLevel_request ''verbose'' initial_state) = initial_state"
  using setLevel_validated [of "''error''" initial_state]
    setLevel_validated [of "''verbose''" initial_state]
  by (simp add: array_includes_def levels_def)

text \<open>
  Claim C2: \<^verbatim>\<open>sendResourceUpdated\<close> posts a \<^verbatim>\<open>notifications/resources/updated\<close> for a
  uri exactly when the uri is in the subscription set, and then posts exactly one; on any
  other uri it changes nothing. After any history of requests the uri is in the set
  exactly when it was subscribed and not unsubscribed since. Right after subscribing
  \<open>r\<close> one update on \<open>r\<close> posts one notification with uri \<open>r\<close>; right after
  unsubscribing it, none.
\<close>

theorem resource_updated_only_if_subscribed:
  "sent (sendResourceUpdated u s) =
     sent s @ (if u \<in> subscribedResources s then [ResourceUpdated u] else []) \<and>
   (u \<notin> subscribedResources s \<longrightarrow> sendResourceUpdated u s = s) \<and>
   (u \<in> subscribedResources (run_requests rs initial_state)) = subscribed_after False rs u \<and>
   sent (sendResourceUpdated r (snd (subscribe_handler r s))) = sent s @ [ResourceUpdated r] \<and>
   sendResourceUpdated r (snd (unsubscribe_handler r s)) = snd (unsubscribe_handler r s)"
  by (simp add: sendResourceUpdated_def originalSendResourceUpdated_def subscribe_handler_def
      unsubscribe_handler_def run_requests_subscribed initial_state_def)

theorem resource_updated_only_if_subscribed_witness:
  "sent (sendResourceUpdated ''file:///a''
     (run_requests [SubscribeRequest ''file:///a''] initial_state)) =
     [ResourceUpdated ''file:///a''] \<and>
   ''file:///b'' \<notin> subscribedResources (run_requests [SubscribeRequest ''file:///a''] initial_state) \<and>
   sendResourceUpdated ''file:///b'' (run_requests [SubscribeRequest ''file:///a''] initial_state) =
     run_requests [SubscribeRequest ''file:///a''] initial_state \<and>
   sent (sendResourceUpdated ''file:///a''
      (run_requests [SubscribeRequest ''file:///a'', UnsubscribeRequest ''file:///a'']
         initial_state)) = []"
  using resource_updated_only_if_subscribed
      [of "''file:///a''" "run_requests [SubscribeRequest ''file:///a''] initial_state"
          "[SubscribeRequest ''file:///a'']" "''file:///a''"]
    resource_updated_only_if_subscribed
      [of "''file:///b''" "run_requests [SubscribeRequest ''file:///a''] initial_state"
          "[SubscribeRequest ''file:///a'']" "''file:///a''"]
    resource_updated_only_if_subscribed
      [of "''file:///a''"
          "run_requests [SubscribeRequest ''file:///a'', UnsubscribeRequest ''file:///a''] initial_state"
          "[SubscribeRequest ''file:///a'', UnsubscribeRequest ''file:///a'']" "''file:///a''"]
  by (simp add: initial_state_def subscribe_handler_def unsubscribe_handler_def)

text \<open>
  Claim C3: in every state the server can reach, \<^verbatim>\<open>sendLoggingMessage\<close> delivers a
  record of one of the eight severities exactly when the rank of its severity, in the
  order debug < info < notice < warning < error < critical < alert < emergency, is at
  least the rank of the current threshold. Sending does not move the threshold, and
  setting the level leaves what was already sent as it is, so a new threshold bears on
  later emissions only.
\<close>

theorem log_delivery_iff_rank:
  assumes "array_includes levels (level p)" and "s = run_events evs initial_state"
  shows "sent (sendLoggingMessage p s) =
           (if severity_rank (level p) \<ge> severity_rank (currentLogLevel s)
            then sent s @ [LoggingMessage p] else sent s) \<and>
         currentLogLevel (sendLoggingMessage p s) = currentLogLevel s \<and>
         sent (snd (setLevel_handler l s)) = sent s"
proof -
  have "array_includes levels (currentLogLevel s)"
    unfolding assms(2) by (rule run_events_level_valid [OF initial_level_valid])
  then show ?thesis
    using assms(1)
    by (simp add: sendLoggingMessage_def originalSendLoggingMessage_def indexOf_levels_rank
        setLevel_handler_def)
qed

theorem log_delivery_iff_rank_witness:
  "array_includes levels ''info'' \<and>
   sent (sendLoggingMessage \<lparr>level = ''info'', logger = Some ''test'', data = ''c''\<rparr>
     (run_events [Connect ''s1'', Post ''s1'' (SetLevelRequest ''error'')] initial_state)) = [] \<and>
   array_includes levels ''error'' \<and>
   sent (sendLoggingMessage \<lparr>level = ''error'', logger = Some ''test'', data = ''d''\<rparr>
     (run_events [Connect ''s1'', Post ''s1'' (SetLevelRequest ''info'')] initial_state)) =
     [LoggingMessage \<lparr>level = ''error'', logger = Some ''test'', data = ''d''\<rparr>]"
  using log_delivery_iff_rank
      [of "\<lparr>level = ''info'', logger = Some ''test'', data = ''c''\<rparr>"
          "run_events [Connect ''s1'', Post ''s1'' (SetLevelRequest ''error'')] initial_state"
          "[Connect ''s1'', Post ''s1'' (SetLevelRequest ''error'')]" "''debug''"]
    log_delivery_iff_rank
      [of "\<lparr>level = ''error'', logger = Some ''test'', data = ''d''\<rparr>"
          "run_events [Connect ''s1'', Post ''s1'' (SetLevelRequest ''info'')] initial_state"
          "[Connect ''s1'', Post ''s1'' (SetLevelRequest ''info'')]" "''debug''"]
  by (simp add: array_includes_def levels_def initial_state_def connect_sse_def
      post_message_def setLevel_handler_def severity_rank_def)

text \<open>
  Claim C9: the sessions of one server share one threshold and one subscription set.
  A request has the same effect whichever connected session posts it; connecting a
  session gives it no threshold or subscriptions of its own; and what session \<open>b\<close>
  posts decides what is emitted for everyone: after its \<^verbatim>\<open>setLevel('error')\<close> an
  \<^verbatim>\<open>info\<close> record is dropped, after its \<^verbatim>\<open>setLevel('debug')\<close> the same record is sent,
  and its subscribe or unsubscribe decides whether an update on \<open>u\<close> is sent. So what
  session \<open>a\<close> observes depends on the inputs of session \<open>b\<close>.
\<close>

theorem shared_server_state:
  assumes "a \<in> transports s" and "b \<in> transports s" and "level p = ''info''"
  shows "post_message a req s = post_message b req s \<and>
         sent (sendLoggingMessage p (snd (post_message b (SetLevelRequest ''error'') s))) = sent s \<and>
         sent (sendLoggingMessage p (snd (post_message b (SetLevelRequest ''debug'') s))) =
           sent s @ [LoggingMessage p] \<and>
         sent (sendResourceUpdated u (snd (post_message b (SubscribeRequest u) s))) =
           sent s @ [ResourceUpdated u] \<and>
         sent (sendResourceUpdated u (snd (post_message b (UnsubscribeRequest u) s))) = sent s \<and>
         currentLogLevel (connect_sse c s) = currentLogLevel s \<and>
         subscribedResources (connect_sse c s) = subscribedResources s"
  using assms
  by (simp add: post_message_def setLevel_handler_def subscribe_handler_def
      unsubscribe_handler_def sendLoggingMessage_def originalSendLoggingMessage_def
      sendResourceUpdated_def originalSendResourceUpdated_def connect_sse_def
      array_includes_def levels_def)

theorem shared_server_state_witness:
  "''a'' \<in> transports (run_events [Connect ''a'', Connect ''b''] initial_state) \<and>
   ''b'' \<in> transports (run_events [Connect ''a'', Connect ''b''] initial_state) \<and>
   sent (sendLoggingMessage \<lparr>level = ''info'', logger = None, data = ''m''\<rparr>
     (snd (post_message ''b'' (SetLevelRequest ''error'')
        (run_events [Connect ''a'', Connect ''b''] initial_state)))) = [] \<and>
   sent (sendLoggingMessage \<lparr>level = ''info'', logger = None, data = ''m''\<rparr>
     (snd (post_message ''b'' (SetLevelRequest ''debug'')
        (run_events [Connect ''a'', Connect ''b''] initial_state)))) =
     [LoggingMessage \<lparr>level = ''info'', logger = None, data = ''m''\<rparr>]"
  using shared_server_state
      [of "''a''" "run_events [Connect ''a'', Connect ''b''] initial_state" "''b''"
          "\<lparr>level = ''info'', logger = None, data = ''m''\<rparr>" "SetLevelRequest ''info''"
          "''file:///a''" "''c''"]
  by (simp add: initial_state_def connect_sse_def)

section \<open>Properties of the long-running handlers\<close>

lemma find_Some_in_set: "find P xs = Some x \<Longrightarrow> x \<in> set xs"
  by (induction xs) (auto split: if_splits)

lemma progress_loop_find:
  "progress_loop steps i extra out =
     (case find (signal_aborted extra) [i ..< Suc steps] of
        None \<Rightarrow> (None, out @ map (\<lambda>j. progress_notification extra j steps) [i ..< Suc steps])
      | Some k \<Rightarrow> (Some (Error ''Cancelled''),
                   out @ map (\<lambda>j. progress_notification extra j steps) [i ..< k]))"
proof (induction steps i extra out rule: progress_loop.induct)
  case (1 steps i extra out)
  show ?case
  proof (cases "i \<le> steps")
    case False
    then show ?thesis by (subst progress_loop.simps) simp
  next
    case True
    then have range: "[i ..< Suc steps] = i # [i + 1 ..< Suc steps]"
      by (simp add: upt_conv_Cons)
    show ?thesis
    proof (cases "signal_aborted extra i")
      case aborted: True
      with True show ?thesis by (subst progress_loop.simps) (simp add: range del: upt_Suc)
    next
      case running: False
      have later: "k \<in> set [i + 1 ..< Suc steps] \<Longrightarrow> [i ..< k] = i # [i + 1 ..< k]" for k
      proof -
        assume "k \<in> set [i + 1 ..< Suc steps]"
        then have "i < k" by auto
        then show ?thesis by (simp add: upt_conv_Cons)
      qed
      have found: "find (signal_aborted extra) [i + 1 ..< Suc steps] = Some k \<Longrightarrow>
                   k \<in> set [i + 1 ..< Suc steps]" for k
        by (rule find_Some_in_set)
      show ?thesis
        using True running "1.IH" [OF True running] later found
        by (subst progress_loop.simps) (auto simp: range simp del: upt_Suc split: option.splits)
    qed
  qed
qed

lemma show_nat_digit: "n < 10 \<Longrightarrow> show_nat n = [digit_char n]"
  by (subst show_nat.simps) simp

lemma progress_loop_tokens:
  "list_all (carries_token (progressToken_or_0 extra)) (snd (progress_loop steps 1 extra []))"
  by (simp add: progress_loop_find list_all_iff carries_token_def progress_notification_def
      del: upt_Suc split: option.splits)

text \<open>
  Claim C5: cancellation is cooperative. Each of \<^verbatim>\<open>slow_echo\<close>, \<^verbatim>\<open>slow_prompt\<close> and
  \<^verbatim>\<open>slow-resource\<close> reads the signal once at the head of each iteration and nowhere
  else. If iteration \<open>k\<close> is the first whose check finds the signal aborted, the handler
  throws \<^verbatim>\<open>Error('Cancelled')\<close>, having sent the progress notifications of the
  iterations before \<open>k\<close> and no other, and returns no result. If no check finds it
  aborted, the handler sends every progress notification and returns its result.
\<close>

theorem cooperative_cancellation:
  "slow_echo msg delay extra =
     (case first_abort extra 5 of
        None \<Rightarrow> (Inr \<lparr>content = [\<lparr>content_text = msg\<rparr>]\<rparr>,
                 map (\<lambda>j. progress_notification extra j 5) [1 ..< 6])
      | Some k \<Rightarrow> (Inl (Error ''Cancelled''),
                   map (\<lambda>j. progress_notification extra j 5) [1 ..< k])) \<and>
   slow_prompt msg extra =
     (case first_abort extra 5 of
        None \<Rightarrow> (Inr \<lparr>description = ''Slow prompt'',
                      messages = [\<lparr>role = ''user'', message_content = \<lparr>content_text = msg\<rparr>\<rparr>]\<rparr>,
                 map (\<lambda>j. progress_notification extra j 5) [1 ..< 6])
      | Some k \<Rightarrow> (Inl (Error ''Cancelled''),
                   map (\<lambda>j. progress_notification extra j 5) [1 ..< k])) \<and>
   slow_resource extra =
     (case first_abort extra 3 of
        None \<Rightarrow> (Inr \<lparr>contents = [\<lparr>contents_uri = ''file:///slow/data.txt'',
                                     mimeType = ''text/plain'',
                                     contents_text = ''slow resource''\<rparr>]\<rparr>,
                 map (\<lambda>j. progress_notification extra j 3) [1 ..< 4])
      | Some k \<Rightarrow> (Inl (Error ''Cancelled''),
                   map (\<lambda>j. progress_notification extra j 3) [1 ..< k]))"
  by (simp add: slow_echo_def slow_prompt_def slow_resource_def first_abort_def
      progress_loop_find del: upt_Suc split: option.splits)

theorem cooperative_cancellation_witness:
  "slow_resource \<lparr>meta = None, signal_aborted = aborted_from 2\<rparr> =
     (Inl (Error ''Cancelled''),
      [Progress \<lparr>progressToken = TokenNumber 0, progress = 1, total = 3, message = ''Step 1''\<rparr>]) \<and>
   slow_resource \<lparr>meta = None, signal_aborted = never_aborted\<rparr> =
     (Inr \<lparr>contents = [\<lparr>contents_uri = ''file:///slow/data.txt'', mimeType = ''text/plain'',
                         contents_text = ''slow resource''\<rparr>]\<rparr>,
      [Progress \<lparr>progressToken = TokenNumber 0, progress = 1, total = 3, message = ''Step 1''\<rparr>,
       Progress \<lparr>progressToken = TokenNumber 0, progress = 2, total = 3, message = ''Step 2''\<rparr>,
       Progress \<lparr>progressToken = TokenNumber 0, progress = 3, total = 3, message = ''Step 3''\<rparr>])"
  using cooperative_cancellation [of "''x''" 0 "\<lparr>meta = None, signal_aborted = aborted_from 2\<rparr>"]
    cooperative_cancellation [of "''x''" 0 "\<lparr>meta = None, signal_aborted = never_aborted\<rparr>"]
  by (simp add: first_abort_def aborted_from_def never_aborted_def upt_rec [of _ "numeral _"]
      progress_notification_def progressToken_or_0_def show_nat_digit digit_char_def)

text \<open>
  Claim C6, as the specification states it, has a handler emit progress notifications
  only when the request supplied a progress token. \<^verbatim>\<open>slow_echo\<close>, called without
  \<^verbatim>\<open>_meta\<close> and never aborted, emits all five, with the token 0.
\<close>

theorem progress_without_token_counterexample:
  "supplied_token \<lparr>meta = None, signal_aborted = never_aborted\<rparr> = None \<and>
   snd (slow_echo ''hello'' 500 \<lparr>meta = None, signal_aborted = never_aborted\<rparr>) =
     [Progress \<lparr>progressToken = TokenNumber 0, progress = 1, total = 5, message = ''Step 1''\<rparr>,
      Progress \<lparr>progressToken = TokenNumber 0, progress = 2, total = 5, message = ''Step 2''\<rparr>,
      Progress \<lparr>progressToken = TokenNumber 0, progress = 3, total = 5, message = ''Step 3''\<rparr>,
      Progress \<lparr>progressToken = TokenNumber 0, progress = 4, total = 5, message = ''Step 4''\<rparr>,
      Progress \<lparr>progressToken = TokenNumber 0, progress = 5, total = 5, message = ''Step 5''\<rparr>]"
  by (simp add: supplied_token_def slow_echo_def progress_loop_find never_aborted_def
      upt_rec [of _ "numeral _"] progress_notification_def progressToken_or_0_def
      show_nat_digit digit_char_def)

text \<open>
  Claim C6, amended: when the request carries a progress token, every notification that
  \<^verbatim>\<open>slow_echo\<close> or \<^verbatim>\<open>slow_prompt\<close> emits is a progress notification with exactly that
  token; when the request carries none, the handlers emit their progress notifications
  all the same, each with the token 0.
\<close>

theorem progress_token_echoed:
  "(supplied_token extra = Some t \<longrightarrow>
      list_all (carries_token t) (snd (slow_echo msg delay extra)) \<and>
      list_all (carries_token t) (snd (slow_prompt msg extra))) \<and>
   (supplied_token extra = None \<longrightarrow>
      list_all (carries_token (TokenNumber 0)) (snd (slow_echo msg delay extra)) \<and>
      list_all (carries_token (TokenNumber 0)) (snd (slow_prompt msg extra)) \<and>
      (\<not> signal_aborted extra 1 \<longrightarrow>
         snd (slow_echo msg delay extra) \<noteq> [] \<and> snd (slow_prompt msg extra) \<noteq> []))"
proof -
  have tok: "supplied_token extra = Some t \<Longrightarrow> progressToken_or_0 extra = t"
    and zero: "supplied_token extra = None \<Longrightarrow> progressToken_or_0 extra = TokenNumber 0"
    by (auto simp: supplied_token_def progressToken_or_0_def split: option.splits)
  have out: "snd (slow_echo msg delay extra) = snd (progress_loop 5 1 extra [])"
    "snd (slow_prompt msg extra) = snd (progress_loop 5 1 extra [])"
    by (simp_all add: slow_echo_def slow_prompt_def split: prod.splits option.splits)
  have first: "\<not> signal_aborted extra 1 \<Longrightarrow> snd (progress_loop 5 1 extra []) \<noteq> []"
    by (subst progress_loop.simps, simp, subst progress_loop_find)
       (simp split: option.splits)
  show ?thesis
    using progress_loop_tokens [of extra 5] tok zero first by (auto simp: out)
qed

theorem progress_token_echoed_witness:
  "supplied_token \<lparr>meta = Some \<lparr>meta_progressToken = Some (TokenString ''abc123'')\<rparr>,
                   signal_aborted = never_aborted\<rparr> = Some (TokenString ''abc123'') \<and>
   list_all (carries_token (TokenString ''abc123''))
     (snd (slow_echo ''hello'' 500
        \<lparr>meta = Some \<lparr>meta_progressToken = Some (TokenString ''abc123'')\<rparr>,
         signal_aborted = never_aborted\<rparr>)) \<and>
   supplied_token \<lparr>meta = None, signal_aborted = never_aborted\<rparr> = None \<and>
   \<not> signal_aborted \<lparr>meta = None, signal_aborted = never_aborted\<rparr> 1 \<and>
   snd (slow_prompt ''hello'' \<lparr>meta = None, signal_aborted = never_aborted\<rparr>) \<noteq> []"
  using progress_token_echoed
      [of "\<lparr>meta = Some \<lparr>meta_progressToken = Some (TokenString ''abc123'')\<rparr>,
            signal_aborted = never_aborted\<rparr>" "TokenString ''abc123''" "''hello''" 500]
    progress_token_echoed
      [of "\<lparr>meta = None, signal_aborted = never_aborted\<rparr>" "TokenNumber 0" "''hello''" 500]
  by (simp add: supplied_token_def never_aborted_def)

section \<open>Properties of reading and listing\<close>

lemma show_int_32002: "show_int (-32002) = ''-32002''"
  by (simp add: show_int_def show_nat.simps digit_char_def)

text \<open>
  Claim C10, as stated, has every read that finds nothing fail with code -32002, the
  message \<^verbatim>\<open>'Resource not found'\<close> and the requested uri in the data. Two calls show
  otherwise. The template handler, on the unknown path \<^verbatim>\<open>missing.txt\<close>, throws
  \<^verbatim>\<open>new McpError(-32002, 'Resource not found', ...)\<close>, whose message is
  \<^verbatim>\<open>'MCP error -32002: Resource not found'\<close>. And when the original handler throws the
  \<^verbatim>\<open>TypeError\<close> of \<^verbatim>\<open>new URL\<close>, a plain \<^verbatim>\<open>Error\<close>, as it does for the uri
  \<^verbatim>\<open>'not a url'\<close>, the wrapped handler throws that same error: its code is not -32602, so
  the catch clause rethrows it.
\<close>

theorem read_not_found_counterexample:
  "failure_message
     (file_template_handler (URL ''http://example.com/missing.txt'') ''missing.txt''
        \<lparr>meta = None, signal_aborted = never_aborted\<rparr>) =
     Some ''MCP error -32002: Resource not found'' \<and>
   read_handler
     (handler_with_outcome (Inl (Error ''Invalid URL'') :: thrown + read_resource_result, []))
     \<lparr>request_uri = ''not a url''\<rparr> \<lparr>meta = None, signal_aborted = never_aborted\<rparr> =
     (Inl (Error ''Invalid URL''), [])"
  by (simp add: failure_message_def file_template_handler_def read_handler_def
      handler_with_outcome_def show_int_32002)

text \<open>
  Claim C10, amended: when the original handler throws an \<^verbatim>\<open>Error\<close> whose code is -32602,
  the wrapped \<^verbatim>\<open>resources/read\<close> handler throws
  \<^verbatim>\<open>new McpError(-32002, 'Resource not found', { uri: request.params.uri })\<close> in its place:
  code -32002, the requested uri in the data, and the message
  \<^verbatim>\<open>'MCP error -32002: Resource not found'\<close>. Whatever else the original handler throws is
  rethrown as it is, and what it returns is returned. The template handler, on a path
  that is neither of the two it knows, throws an error with the same code and message,
  its data carrying the string of the URL object it was handed; the wrapped handler lets
  that error through unchanged.
\<close>

theorem resource_not_found_error:
  "(origReadHandler request extra = (Inl e, out) \<and> instanceof_Error e \<and>
      code_of e = Some (-32602) \<longrightarrow>
    read_handler origReadHandler request extra =
      (Inl (McpError (-32002) ''Resource not found'' [(''uri'', request_uri request)]), out) \<and>
    failure_message (read_handler origReadHandler request extra) =
      Some ''MCP error -32002: Resource not found'') \<and>
   (origReadHandler request extra = (Inl e, out) \<and>
      \<not> (instanceof_Error e \<and> code_of e = Some (-32602)) \<longrightarrow>
    read_handler origReadHandler request extra = (Inl e, out)) \<and>
   (origReadHandler request extra = (Inr r, out) \<longrightarrow>
    read_handler origReadHandler request extra = (Inr r, out)) \<and>
   (path \<noteq> ''project/src/main.rs'' \<and> path \<noteq> ''slow/data.txt'' \<longrightarrow>
    file_template_handler uri path extra =
      (Inl (McpError (-32002) ''Resource not found'' [(''uri'', toString uri)]), []) \<and>
    failure_message (file_template_handler uri path extra) =
      Some ''MCP error -32002: Resource not found'') \<and>
   (path \<noteq> ''project/src/main.rs'' \<and> path \<noteq> ''slow/data.txt'' \<and>
    origReadHandler request extra = file_template_handler uri path extra \<longrightarrow>
    read_handler origReadHandler request extra = file_template_handler uri path extra)"
  by (simp add: read_handler_def file_template_handler_def failure_message_def show_int_32002)

theorem resource_not_found_error_witness:
  "read_handler
     (handler_with_outcome
        (Inl (McpError (-32602) ''Resource file:///nowhere not found'' [])
           :: thrown + read_resource_result, []))
     \<lparr>request_uri = ''file:///nowhere''\<rparr> \<lparr>meta = None, signal_aborted = never_aborted\<rparr> =
     (Inl (McpError (-32002) ''Resource not found'' [(''uri'', ''file:///nowhere'')]), []) \<and>
   read_handler
     (handler_with_outcome (Inl (NonError (Some (-32602))) :: thrown + read_resource_result, []))
     \<lparr>request_uri = ''file:///nowhere''\<rparr> \<lparr>meta = None, signal_aborted = never_aborted\<rparr> =
     (Inl (NonError (Some (-32602))), []) \<and>
   read_handler
     (handler_with_outcome
        (Inr \<lparr>contents = []\<rparr> :: thrown + read_resource_result, []))
     \<lparr>request_uri = ''file:///nowhere''\<rparr> \<lparr>meta = None, signal_aborted = never_aborted\<rparr> =
     (Inr \<lparr>contents = []\<rparr>, []) \<and>
   read_handler
     (handler_with_outcome
        (file_template_handler (URL ''http://example.com/missing.txt'') ''missing.txt''
           \<lparr>meta = None, signal_aborted = never_aborted\<rparr>))
     \<lparr>request_uri = ''http://example.com/missing.txt''\<rparr>
     \<lparr>meta = None, signal_aborted = never_aborted\<rparr> =
     (Inl (McpError (-32002) ''Resource not found''
        [(''uri'', ''http://example.com/missing.txt'')]), [])"
  using resource_not_found_error
      [of "handler_with_outcome
             (Inl (McpError (-32602) ''Resource file:///nowhere not found'' [])
                :: thrown + read_resource_result, [])"
          "\<lparr>request_uri = ''file:///nowhere''\<rparr>"
          "\<lparr>meta = None, signal_aborted = never_aborted\<rparr>"
          "McpError (-32602) ''Resource file:///nowhere not found'' []" "[]"
          "\<lparr>contents = []\<rparr>" "''missing.txt''" "URL ''file:///nowhere''"]
    resource_not_found_error
      [of "handler_with_outcome
             (Inl (NonError (Some (-32602))) :: thrown + read_resource_result, [])"
          "\<lparr>request_uri = ''file:///nowhere''\<rparr>"
          "\<lparr>meta = None, signal_aborted = never_aborted\<rparr>"
          "NonError (Some (-32602))" "[]"
          "\<lparr>contents = []\<rparr>" "''missing.txt''" "URL ''file:///nowhere''"]
    resource_not_found_error
      [of "handler_with_outcome
             (Inr \<lparr>contents = []\<rparr> :: thrown + read_resource_result, [])"
          "\<lparr>request_uri = ''file:///nowhere''\<rparr>"
          "\<lparr>meta = None, signal_aborted = never_aborted\<rparr>"
          "Error ''unused''" "[]"
          "\<lparr>contents = []\<rparr>" "''missing.txt''" "URL ''file:///nowhere''"]
    resource_not_found_error
      [of "handler_with_outcome
             (file_template_handler (URL ''http://example.com/missing.txt'') ''missing.txt''
                \<lparr>meta = None, signal_aborted = never_aborted\<rparr>)"
          "\<lparr>request_uri = ''http://example.com/missing.txt''\<rparr>"
          "\<lparr>meta = None, signal_aborted = never_aborted\<rparr>"
          "Error ''unused''" "[]"
          "\<lparr>contents = []\<rparr>" "''missing.txt''" "URL ''http://example.com/missing.txt''"]
  by (simp add: handler_with_outcome_def file_template_handler_def)

text \<open>
  Claim C7: the paginated \<^verbatim>\<open>resources/list\<close> handler answers a request without cursor
  with the first page, the one resource \<^verbatim>\<open>file:///one\<close>, and \<^verbatim>\<open>nextCursor: 'next'\<close>; it
  answers the request that sends that cursor back with the one resource \<^verbatim>\<open>file:///two\<close>
  and no \<^verbatim>\<open>nextCursor\<close>; the two pages share no resource. On the wire the request
  without cursor differs from the request with any cursor, the empty string included,
  and the handler's own test for the presence of a cursor tells the two apart.
\<close>

theorem pagination_pages:
  "list_resources_handler (listResources_request i None) =
     JObject [(''resources'',
               JArray [JObject [(''uri'', JString ''file:///one''), (''name'', JString ''one'')]]),
              (''nextCursor'', JString ''next'')] \<and>
   nextCursor_of (list_resources_handler (listResources_request i None)) = Some ''next'' \<and>
   list_resources_handler (listResources_request j
      (nextCursor_of (list_resources_handler (listResources_request i None)))) =
     JObject [(''resources'',
               JArray [JObject [(''uri'', JString ''file:///two''), (''name'', JString ''two'')]])] \<and>
   nextCursor_of (list_resources_handler (listResources_request j (Some ''next''))) = None \<and>
   resources_of (list_resources_handler (listResources_request i None)) =
     [JObject [(''uri'', JString ''file:///one''), (''name'', JString ''one'')]] \<and>
   resources_of (list_resources_handler (listResources_request j (Some ''next''))) =
     [JObject [(''uri'', JString ''file:///two''), (''name'', JString ''two'')]] \<and>
   set (resources_of (list_resources_handler (listResources_request i None))) \<inter>
     set (resources_of (list_resources_handler (listResources_request j (Some ''next'')))) = {} \<and>
   listResources_request i None \<noteq> listResources_request i (Some c) \<and>
   \<not> cursor_in_params (listResources_request i None) \<and>
   cursor_in_params (listResources_request i (Some []))"
  by (simp add: list_resources_handler_def listResources_request_def nextCursor_of_def
      resources_of_def cursor_in_params_def params_cursor_def)

section \<open>Properties of the correlation table\<close>

lemma session_wf_new: "session_wf (new_session c)"
  by (simp add: session_wf_def new_session_def)

lemma session_wf_submit: "session_wf s \<Longrightarrow> session_wf (snd (submit meth tok s))"
  by (fastforce simp: session_wf_def submit_def list_all_iff)

lemma session_wf_finish:
  assumes "session_wf s" and "is_pending i s"
  shows "session_wf (s\<lparr>pending := drop_pending i s, observed := observed s @ [(i, t)]\<rparr>)"
    and "session_wf (s\<lparr>pending := drop_pending i s, observed := observed s @ [(i, t)],
                        channel := ch\<rparr>)"
  using assms
  by (auto simp: session_wf_def is_pending_def drop_pending_def list_all_iff distinct_map_filter)

lemma session_wf_cancelLocally: "session_wf s \<Longrightarrow> session_wf (cancelLocally i reason s)"
  by (cases "is_pending i s") (simp_all add: cancelLocally_def session_wf_finish)

lemma session_wf_resolve: "session_wf s \<Longrightarrow> session_wf (resolve i res s)"
  by (cases "is_pending i s") (simp_all add: resolve_def session_wf_finish)

lemma session_wf_reject: "session_wf s \<Longrightarrow> session_wf (reject i code msg s)"
  by (cases "is_pending i s") (simp_all add: reject_def session_wf_finish)

lemma session_wf_onMessage: "session_wf s \<Longrightarrow> session_wf (onMessage m s)"
  by (cases m) (simp_all add: session_wf_resolve session_wf_reject)

lemma session_wf_step: "session_wf s \<Longrightarrow> session_wf (session_step e s)"
  by (cases e) (simp_all add: session_wf_submit session_wf_cancelLocally session_wf_onMessage)

lemma session_wf_run: "session_wf s \<Longrightarrow> session_wf (session_run es s)"
  by (induction es arbitrary: s) (simp_all add: session_wf_step)

lemma retired_step:
  assumes "retired r s"
  shows "retired r (session_step e s) \<and> observed_for r (session_step e s) = observed_for r s"
proof (cases e)
  case (Submit meth tok)
  then show ?thesis using assms
    by (auto simp: retired_def is_pending_def submit_def observed_for_def)
next
  case (Cancel i reason)
  then show ?thesis using assms
    by (auto simp: retired_def is_pending_def drop_pending_def observed_for_def cancelLocally_def)
next
  case (Incoming m)
  then show ?thesis using assms
    by (cases m)
       (auto simp: retired_def is_pending_def drop_pending_def observed_for_def resolve_def
          reject_def)
qed

lemma retired_run:
  "retired r s \<Longrightarrow> observed_for r (session_run es s) = observed_for r s"
proof (induction es arbitrary: s)
  case Nil
  then show ?case by simp
next
  case (Cons e es)
  then show ?case using retired_step [of r s e] by simp
qed

lemma counter_step:
  "counter (session_step e s) = (case e of Submit m t \<Rightarrow> counter s + 1 | _ \<Rightarrow> counter s)"
proof (cases e)
  case (Incoming m)
  then show ?thesis by (cases m) (simp_all add: resolve_def reject_def)
qed (simp_all add: submit_def cancelLocally_def)

lemma allocated_ids_upt:
  "allocated_ids es s = [counter s ..< counter s + count_submits es]"
proof (induction es arbitrary: s)
  case Nil
  then show ?case by simp
next
  case (Cons e es)
  show ?case
  proof (cases e)
    case (Submit meth tok)
    then show ?thesis using Cons.IH [of "snd (submit meth tok s)"]
      by (simp add: submit_def upt_conv_Cons)
  next
    case (Cancel i reason)
    then show ?thesis using Cons.IH [of "session_step e s"] counter_step [of e s] by simp
  next
    case (Incoming m)
    then show ?thesis using Cons.IH [of "session_step e s"] counter_step [of e s] by simp
  qed
qed

text \<open>
  Claim C4: let request \<open>r\<close> be pending in a consistent session, so that no terminal
  state has been observed for it. When the caller cancels it, the call reaches the
  terminal state cancelled at once, with the reason; a \<^verbatim>\<open>notifications/cancelled\<close> with
  \<open>requestId = r\<close> and the reason goes on the channel; and whatever happens afterwards, a
  response or an error with id \<open>r\<close> from the peer included, the caller observes nothing
  more for \<open>r\<close>.
\<close>

theorem cancelled_request_stays_cancelled:
  assumes "session_wf s" and "is_pending r s"
  shows "observed_for r s = [] \<and>
         observed (cancelLocally r reason s) = observed s @ [(r, CancelledLocally reason)] \<and>
         channel (cancelLocally r reason s) = channel s @ [CancelledNotification r reason] \<and>
         observed_for r (session_run evs (cancelLocally r reason s)) = [CancelledLocally reason]"
proof -
  have below: "r < counter s" and unseen: "r \<notin> set (map fst (observed s))"
    using assms by (auto simp: session_wf_def is_pending_def list_all_iff)
  have none: "observed_for r s = []"
    using unseen by (auto simp: observed_for_def filter_empty_conv)
  have "retired r (cancelLocally r reason s)"
    using below assms(2) by (auto simp: retired_def cancelLocally_def is_pending_def drop_pending_def)
  then have "observed_for r (session_run evs (cancelLocally r reason s)) =
             observed_for r (cancelLocally r reason s)"
    by (rule retired_run)
  also have "\<dots> = [CancelledLocally reason]"
    using none assms(2) by (simp add: cancelLocally_def observed_for_def)
  finally show ?thesis using none assms(2) by (simp add: cancelLocally_def)
qed

theorem cancelled_request_stays_cancelled_witness:
  "session_wf (session_run [Submit ''tools/call'' (Some (TokenNumber 1))] (new_session 1)) \<and>
   is_pending 1 (session_run [Submit ''tools/call'' (Some (TokenNumber 1))] (new_session 1)) \<and>
   channel (cancelLocally 1 (Some ''User requested cancellation'')
      (session_run [Submit ''tools/call'' (Some (TokenNumber 1))] (new_session 1))) =
     [RequestEnvelope 1 ''tools/call'' (Some (TokenNumber 1)),
      CancelledNotification 1 (Some ''User requested cancellation'')] \<and>
   observed_for 1
     (session_run [Incoming (ResponseEnvelope 1 ''cancel''), Incoming (ErrorEnvelope 1 (-32603) ''late'')]
        (cancelLocally 1 (Some ''User requested cancellation'')
           (session_run [Submit ''tools/call'' (Some (TokenNumber 1))] (new_session 1)))) =
     [CancelledLocally (Some ''User requested cancellation'')]"
proof -
  have wf: "session_wf (session_run [Submit ''tools/call'' (Some (TokenNumber 1))] (new_session 1))"
    by (simp add: session_wf_def submit_def new_session_def)
  have pend: "is_pending 1 (session_run [Submit ''tools/call'' (Some (TokenNumber 1))] (new_session 1))"
    by (simp add: is_pending_def submit_def new_session_def)
  show ?thesis
    using wf pend
      cancelled_request_stays_cancelled [OF wf pend,
        of "Some ''User requested cancellation''"
           "[Incoming (ResponseEnvelope 1 ''cancel''), Incoming (ErrorEnvelope 1 (-32603) ''late'')]"]
    by (simp add: submit_def new_session_def)
qed

text \<open>
  Claim C8: the ids a session hands out to its successive requests are the counter's
  successive values, from the initial one on, whatever the methods and whatever else
  happens in between; so they strictly increase. No two pending requests share an id,
  and the id the next request would get is not the id of a pending one.
\<close>

theorem request_ids_strictly_increase:
  "allocated_ids evs (new_session c) = [c ..< c + count_submits evs] \<and>
   sorted_wrt (<) (allocated_ids evs (new_session c)) \<and>
   distinct (map pr_id (pending (session_run evs (new_session c)))) \<and>
   \<not> is_pending (fst (submit meth tok (session_run evs (new_session c))))
       (session_run evs (new_session c))"
proof -
  have wf: "session_wf (session_run evs (new_session c))"
    by (rule session_wf_run [OF session_wf_new])
  have ids: "allocated_ids evs (new_session c) = [c ..< c + count_submits evs]"
    by (simp add: allocated_ids_upt new_session_def)
  show ?thesis
    using wf by (auto simp: ids session_wf_def is_pending_def submit_def list_all_iff)
qed

theorem request_ids_strictly_increase_witness:
  "allocated_ids
     [Submit ''tools/list'' None, Incoming (ResponseEnvelope 1 ''tools''),
      Submit ''tools/call'' (Some (TokenNumber 2)), Cancel 2 None,
      Submit ''resources/list'' None] (new_session 1) = [1, 2, 3]"
  using request_ids_strictly_increase
      [of "[Submit ''tools/list'' None, Incoming (ResponseEnvelope 1 ''tools''),
            Submit ''tools/call'' (Some (TokenNumber 2)), Cancel 2 None,
            Submit ''resources/list'' None]" 1 "''x''" None]
  by (simp add: upt_rec [of _ "numeral _"])

end
